theory Spec2Isabelle
  imports Main "HOL-Library.Word" "HOL-Library.Numeral_Type"
begin

section \<open>Value carriers\<close>

text \<open>
  A C++ \<open>float\<close> is carried as its IEEE-754 bit pattern: the reader's callbacks only
  store values, they never compute with them.
\<close>

type_synonym float32 = "32 word"

definition f_zero :: float32 where
  "f_zero = 0"

definition f_one :: float32 where
  "f_one = 0x3F800000"

text \<open>
  \<open>Eigen::Vector4f\<close>: a fixed-size vector of four coefficients, indexed 0 to 3.
\<close>

type_synonym Vector4f = "4 \<Rightarrow> float32"

definition Vector4f_Zero :: Vector4f where
  "Vector4f_Zero = (\<lambda>i. f_zero)"

text \<open>
  \<open>Eigen::Matrix3f\<close>: a fixed-size matrix of three rows and three columns; \<open>m (i, j)\<close> is
  the coefficient of row i and column j, both indexed 0 to 2.
\<close>

type_synonym Matrix3f = "3 \<times> 3 \<Rightarrow> float32"

definition Matrix3f_Zero :: Matrix3f where
  "Matrix3f_Zero = (\<lambda>(i, j). f_zero)"

text \<open>\<open>Eigen::Quaternionf\<close>: the coefficients w, x, y, z.\<close>

record Quaternionf =
  qw :: float32
  qx :: float32
  qy :: float32
  qz :: float32

text \<open>
  Modelled from the spec: \<open>sensor_msgs::PointCloud2\<close> and its field table are declared
  outside \<open>ply_io.h\<close>; the record follows the spec's data model (Schema: name, scalar
  type, byte offset, element count; Point Buffer: row-major bytes with a stride) and
  the two members the header file assigns, \<open>height\<close> and \<open>width\<close>. The members
  \<open>datatype\<close> and \<open>fields\<close> carry a prime here.
\<close>

record PointField =
  name :: string
  offset :: nat
  datatype' :: nat
  count :: nat

record PointCloud2 =
  height :: "32 word"
  width :: "32 word"
  fields' :: "PointField list"
  is_bigendian :: bool
  point_step :: nat
  row_step :: nat
  data :: "8 word list"

text \<open>The files a call can see: a path names a byte sequence or nothing.\<close>

type_synonym filesystem = "string \<Rightarrow> 8 word list option"

section \<open>PLYReader\<close>

text \<open>
  The members of \<open>PLYReader\<close>; a member \<open>x_\<close> of the class is the field \<open>m_x\<close> here.
  \<open>m_cloud\<close> and \<open>m_range_grid\<close> are pointers: \<open>None\<close> is a pointer that holds no object.
\<close>

record PLYReader =
  m_origin :: Vector4f
  m_orientation :: Matrix3f
  m_cloud :: "PointCloud2 option"
  m_vertex_count :: nat
  m_vertex_properties_counter :: nat
  m_vertex_offset_before :: int
  m_range_grid :: "32 word list list option"
  m_range_count :: nat
  m_range_grid_vertex_indices_element_index :: nat
  m_rgb_offset_before :: nat

text \<open>
  The constructor initialises \<open>m_origin\<close>, \<open>m_orientation\<close> and \<open>m_range_grid\<close>; every other
  member keeps whatever the storage \<open>u\<close> held.
\<close>

definition PLYReader_ctor :: "PLYReader \<Rightarrow> PLYReader" where
  "PLYReader_ctor u =
     u\<lparr>m_origin := Vector4f_Zero, m_orientation := Matrix3f_Zero, m_range_grid := None\<rparr>"

subsection \<open>The camera and cloud-dimension callbacks\<close>

text \<open>
  The callbacks \<open>ply_io.h\<close> defines inline. Each of the twelve pose callbacks assigns one
  coefficient of \<open>m_origin\<close> or \<open>m_orientation\<close>; the two dimension callbacks assign through
  \<open>m_cloud\<close>, which is undefined behaviour (\<open>None\<close>) when \<open>m_cloud\<close> holds no cloud.
\<close>

definition originXCallback :: "float32 \<Rightarrow> PLYReader \<Rightarrow> PLYReader" where
  "originXCallback value r = r\<lparr>m_origin := (m_origin r)(0 := value)\<rparr>"

definition originYCallback :: "float32 \<Rightarrow> PLYReader \<Rightarrow> PLYReader" where
  "originYCallback value r = r\<lparr>m_origin := (m_origin r)(1 := value)\<rparr>"

definition originZCallback :: "float32 \<Rightarrow> PLYReader \<Rightarrow> PLYReader" where
  "originZCallback value r = r\<lparr>m_origin := (m_origin r)(2 := value)\<rparr>"

definition orientationXaxisXCallback :: "float32 \<Rightarrow> PLYReader \<Rightarrow> PLYReader" where
  "orientationXaxisXCallback value r = r\<lparr>m_orientation := (m_orientation r)((0, 0) := value)\<rparr>"

definition orientationXaxisYCallback :: "float32 \<Rightarrow> PLYReader \<Rightarrow> PLYReader" where
  "orientationXaxisYCallback value r = r\<lparr>m_orientation := (m_orientation r)((0, 1) := value)\<rparr>"

definition orientationXaxisZCallback :: "float32 \<Rightarrow> PLYReader \<Rightarrow> PLYReader" where
  "orientationXaxisZCallback value r = r\<lparr>m_orientation := (m_orientation r)((0, 2) := value)\<rparr>"

definition orientationYaxisXCallback :: "float32 \<Rightarrow> PLYReader \<Rightarrow> PLYReader" where
  "orientationYaxisXCallback value r = r\<lparr>m_orientation := (m_orientation r)((1, 0) := value)\<rparr>"

definition orientationYaxisYCallback :: "float32 \<Rightarrow> PLYReader \<Rightarrow> PLYReader" where
  "orientationYaxisYCallback value r = r\<lparr>m_orientation := (m_orientation r)((1, 1) := value)\<rparr>"

definition orientationYaxisZCallback :: "float32 \<Rightarrow> PLYReader \<Rightarrow> PLYReader" where
  "orientationYaxisZCallback value r = r\<lparr>m_orientation := (m_orientation r)((1, 2) := value)\<rparr>"

definition orientationZaxisXCallback :: "float32 \<Rightarrow> PLYReader \<Rightarrow> PLYReader" where
  "orientationZaxisXCallback value r = r\<lparr>m_orientation := (m_orientation r)((2, 0) := value)\<rparr>"

definition orientationZaxisYCallback :: "float32 \<Rightarrow> PLYReader \<Rightarrow> PLYReader" where
  "orientationZaxisYCallback value r = r\<lparr>m_orientation := (m_orientation r)((2, 1) := value)\<rparr>"

definition orientationZaxisZCallback :: "float32 \<Rightarrow> PLYReader \<Rightarrow> PLYReader" where
  "orientationZaxisZCallback value r = r\<lparr>m_orientation := (m_orientation r)((2, 2) := value)\<rparr>"

definition cloudHeightCallback :: "32 word \<Rightarrow> PLYReader \<Rightarrow> PLYReader option" where
  "cloudHeightCallback h r =
     (case m_cloud r of
        None \<Rightarrow> None
      | Some c \<Rightarrow> Some (r\<lparr>m_cloud := Some (c\<lparr>height := h\<rparr>)\<rparr>))"

definition cloudWidthCallback :: "32 word \<Rightarrow> PLYReader \<Rightarrow> PLYReader option" where
  "cloudWidthCallback w r =
     (case m_cloud r of
        None \<Rightarrow> None
      | Some c \<Rightarrow> Some (r\<lparr>m_cloud := Some (c\<lparr>width := w\<rparr>)\<rparr>))"

text \<open>
  The five-argument \<open>read\<close> is only declared in \<open>ply_io.h\<close>. Its reference parameters
  are passed in and returned: the result is the return code, the reader after the call,
  and the final \<open>cloud\<close>, \<open>origin\<close>, \<open>orientation\<close> and \<open>ply_version\<close>.
\<close>

type_synonym read5 =
  "PLYReader \<Rightarrow> filesystem \<Rightarrow> string \<Rightarrow> PointCloud2 \<Rightarrow> Vector4f \<Rightarrow> Quaternionf \<Rightarrow> int
     \<Rightarrow> int \<times> PLYReader \<times> PointCloud2 \<times> Vector4f \<times> Quaternionf \<times> int"

text \<open>
  The two-argument \<open>read\<close>. Its locals \<open>origin\<close>, \<open>orientation\<close> and \<open>ply_version\<close> are
  declared without an initialiser; their indeterminate values are the last three
  arguments. The locals end with the call, so only the return code, the reader and the
  cloud come back.
\<close>

definition read2 ::
  "read5 \<Rightarrow> PLYReader \<Rightarrow> filesystem \<Rightarrow> string \<Rightarrow> PointCloud2 \<Rightarrow> Vector4f \<Rightarrow> Quaternionf \<Rightarrow> int
     \<Rightarrow> int \<times> PLYReader \<times> PointCloud2" where
  "read2 read this fs file_name cloud origin orientation ply_version =
     (case read this fs file_name cloud origin orientation ply_version of
        (res, this', cloud', origin', orientation', ply_version') \<Rightarrow> (res, this', cloud'))"

section \<open>PLYWriter\<close>

record PLYWriter =
  m_mask :: "32 word"

definition PLYWriter_ctor :: PLYWriter where
  "PLYWriter_ctor = \<lparr>m_mask = 0\<rparr>"

text \<open>
  \<open>writeBinary\<close> and \<open>writeASCII\<close> are only declared in \<open>ply_io.h\<close>. Each takes the writer
  and the file system and returns its result code with both as the call left them.
\<close>

type_synonym writeBinary =
  "PLYWriter \<Rightarrow> filesystem \<Rightarrow> string \<Rightarrow> PointCloud2 \<Rightarrow> Vector4f \<Rightarrow> Quaternionf
     \<Rightarrow> int \<times> PLYWriter \<times> filesystem"

type_synonym writeASCII =
  "PLYWriter \<Rightarrow> filesystem \<Rightarrow> string \<Rightarrow> PointCloud2 \<Rightarrow> Vector4f \<Rightarrow> Quaternionf \<Rightarrow> int \<Rightarrow> bool
     \<Rightarrow> int \<times> PLYWriter \<times> filesystem"

text \<open>
  The six-parameter \<open>write\<close> (file name, cloud, origin, orientation, binary,
  use_camera), named \<open>write'\<close> here.
\<close>

definition write' ::
  "writeBinary \<Rightarrow> writeASCII \<Rightarrow> PLYWriter \<Rightarrow> filesystem \<Rightarrow> string \<Rightarrow> PointCloud2 \<Rightarrow> Vector4f
     \<Rightarrow> Quaternionf \<Rightarrow> bool \<Rightarrow> bool \<Rightarrow> int \<times> PLYWriter \<times> filesystem" where
  "write' wBinary wASCII this fs file_name cloud origin orientation binary use_camera =
     (if binary then wBinary this fs file_name cloud origin orientation
      else wASCII this fs file_name cloud origin orientation 8 use_camera)"

text \<open>
  The five-parameter \<open>write\<close> (no \<open>use_camera\<close>): its ASCII branch passes \<open>true\<close>.
\<close>

definition write5 ::
  "writeBinary \<Rightarrow> writeASCII \<Rightarrow> PLYWriter \<Rightarrow> filesystem \<Rightarrow> string \<Rightarrow> PointCloud2 \<Rightarrow> Vector4f
     \<Rightarrow> Quaternionf \<Rightarrow> bool \<Rightarrow> int \<times> PLYWriter \<times> filesystem" where
  "write5 wBinary wASCII this fs file_name cloud origin orientation binary =
     (if binary then wBinary this fs file_name cloud origin orientation
      else wASCII this fs file_name cloud origin orientation 8 True)"

section \<open>The range-grid assembler\<close>

text \<open>
  Modelled from the spec: the bodies of \<open>rangeGridVertexIndicesBeginCallback\<close>,
  \<open>rangeGridVertexIndicesElementCallback\<close> and \<open>rangeGridVertexIndicesEndCallback\<close> are
  not in \<open>ply_io.h\<close>, which declares them with the list size as \<open>uint8\<close> and an element
  as \<open>int32\<close>. By the spec, list-begin pushes a new empty list and records its declared
  length; an element callback appends one integer to the current list and fails if more
  elements arrive than the declared length; list-end seals the list.
\<close>

record RangeGridAssembler =
  range_grid :: "32 word list list"
  declared_length :: nat
  sealed :: bool

datatype assembler_error = NoCurrentList | TooManyElements

definition rangeGridVertexIndicesBeginCallback ::
  "8 word \<Rightarrow> RangeGridAssembler \<Rightarrow> assembler_error + RangeGridAssembler" where
  "rangeGridVertexIndicesBeginCallback sz a =
     Inr (a\<lparr>range_grid := range_grid a @ [[]], declared_length := unat sz, sealed := False\<rparr>)"

definition rangeGridVertexIndicesElementCallback ::
  "32 word \<Rightarrow> RangeGridAssembler \<Rightarrow> assembler_error + RangeGridAssembler" where
  "rangeGridVertexIndicesElementCallback vertex_index a =
     (if sealed a \<or> range_grid a = [] then Inl NoCurrentList
      else if declared_length a \<le> length (last (range_grid a)) then Inl TooManyElements
      else Inr (a\<lparr>range_grid :=
                    butlast (range_grid a) @ [last (range_grid a) @ [vertex_index]]\<rparr>))"

definition rangeGridVertexIndicesEndCallback ::
  "RangeGridAssembler \<Rightarrow> assembler_error + RangeGridAssembler" where
  "rangeGridVertexIndicesEndCallback a = Inr (a\<lparr>sealed := True\<rparr>)"

text \<open>The tokenizer's calls for a list property, in the order it makes them.\<close>

datatype list_event = ListBegin "8 word" | ListElement "32 word" | ListEnd

fun list_step :: "list_event \<Rightarrow> RangeGridAssembler \<Rightarrow> assembler_error + RangeGridAssembler" where
  "list_step (ListBegin sz) a = rangeGridVertexIndicesBeginCallback sz a"
| "list_step (ListElement v) a = rangeGridVertexIndicesElementCallback v a"
| "list_step ListEnd a = rangeGridVertexIndicesEndCallback a"

fun feed :: "list_event list \<Rightarrow> RangeGridAssembler \<Rightarrow> assembler_error + RangeGridAssembler" where
  "feed [] a = Inr a"
| "feed (e # es) a = (case list_step e a of Inl err \<Rightarrow> Inl err | Inr a' \<Rightarrow> feed es a')"

text \<open>One row of the range grid as the tokenizer delivers it: the size, the elements, the end.\<close>

definition row_events :: "8 word \<Rightarrow> 32 word list \<Rightarrow> list_event list" where
  "row_events sz vs = ListBegin sz # map ListElement vs @ [ListEnd]"

text \<open>The rows of a range grid, one after the other.\<close>

definition grid_events :: "(8 word \<times> 32 word list) list \<Rightarrow> list_event list" where
  "grid_events rows = concat (map (\<lambda>(sz, vs). row_events sz vs) rows)"

section \<open>The ASCII writer with a range grid\<close>

text \<open>
  A header as its sequence of lines: the magic line, the format line, comments, element
  and property declarations, and \<open>end_header\<close>.
\<close>

datatype header_line =
    Magic
  | Format string
  | Comment string
  | Element string int
  | Property string string
  | PropertyList string string string
  | EndHeader

text \<open>
  What the spec leaves to the implementation: the text of the comment lines, the vertex
  property declarations derived from the mask and the cloud, and the twelve property
  declarations of the camera block.
\<close>

record header_parts =
  comment_lines :: "string list"
  vertex_properties :: "32 word \<Rightarrow> PointCloud2 \<Rightarrow> (string \<times> string) list"
  camera_properties :: "(string \<times> string) list"

text \<open>The number of rows of the point buffer.\<close>

definition nr_points_of :: "PointCloud2 \<Rightarrow> nat" where
  "nr_points_of cloud = unat (width cloud) * unat (height cloud)"

text \<open>
  Modelled from the spec: the body of \<open>PLYWriter::generateHeader\<close> is not in the header
  file. By the spec it emits the magic line, the format line (ASCII, or the binary
  encoding of the cloud's endianness), the comment lines, the vertex element with the
  vertex count it was given and its property declarations, then the camera element
  block when \<open>use_camera\<close> is set and otherwise the range_grid element block with its one
  \<open>list uchar int vertex_indices\<close> property, and finally \<open>end_header\<close>.
\<close>

definition generateHeader ::
  "header_parts \<Rightarrow> PLYWriter \<Rightarrow> PointCloud2 \<Rightarrow> Vector4f \<Rightarrow> Quaternionf \<Rightarrow> bool \<Rightarrow> bool \<Rightarrow> int
     \<Rightarrow> header_line list" where
  "generateHeader parts this cloud origin orientation binary use_camera valid_points =
     [Magic,
      Format (if \<not> binary then ''ascii''
              else if is_bigendian cloud then ''binary_big_endian''
              else ''binary_little_endian'')]
     @ map Comment (comment_lines parts)
     @ [Element ''vertex'' valid_points]
     @ map (\<lambda>(ty, nm). Property ty nm) (vertex_properties parts (m_mask this) cloud)
     @ (if use_camera
        then Element ''camera'' 1 # map (\<lambda>(ty, nm). Property ty nm) (camera_properties parts)
        else [Element ''range_grid'' (int (nr_points_of cloud)),
              PropertyList ''uchar'' ''int'' ''vertex_indices''])
     @ [EndHeader]"

text \<open>The two public header generators, as \<open>ply_io.h\<close> defines them inline.\<close>

definition generateHeaderBinary ::
  "header_parts \<Rightarrow> PLYWriter \<Rightarrow> PointCloud2 \<Rightarrow> Vector4f \<Rightarrow> Quaternionf \<Rightarrow> int \<Rightarrow> bool
     \<Rightarrow> header_line list" where
  "generateHeaderBinary parts this cloud origin orientation valid_points use_camera =
     generateHeader parts this cloud origin orientation True use_camera valid_points"

definition generateHeaderASCII ::
  "header_parts \<Rightarrow> PLYWriter \<Rightarrow> PointCloud2 \<Rightarrow> Vector4f \<Rightarrow> Quaternionf \<Rightarrow> int \<Rightarrow> bool
     \<Rightarrow> header_line list" where
  "generateHeaderASCII parts this cloud origin orientation valid_points use_camera =
     generateHeader parts this cloud origin orientation False use_camera valid_points"

text \<open>The vertex count a header declares: the count of its first \<open>vertex\<close> element.\<close>

fun declared_vertex_count :: "header_line list \<Rightarrow> int option" where
  "declared_vertex_count [] = None"
| "declared_vertex_count (Element nm n # ls) =
     (if nm = ''vertex'' then Some n else declared_vertex_count ls)"
| "declared_vertex_count (l # ls) = declared_vertex_count ls"

text \<open>
  What \<open>writeContentWithRangeGridASCII\<close> leaves in its string stream: the vertex data
  lines, then one range-grid line per row, each the list of vertex indices of that row.
\<close>

record range_grid_content =
  vertex_lines :: "string list"
  grid_lines :: "int list list"

text \<open>
  The two collaborators of the ASCII serializer the spec leaves open: the valid-point
  predicate on a row, and the text of a row at a decimal precision.
\<close>

record serializer_parts =
  valid_point :: "PointCloud2 \<Rightarrow> nat \<Rightarrow> bool"
  format_point :: "int \<Rightarrow> PointCloud2 \<Rightarrow> nat \<Rightarrow> nat \<Rightarrow> string"

text \<open>
  Modelled from the spec: the body of \<open>writeContentWithRangeGridASCII\<close> is not in the
  header file, which declares it with the row count, the row size, the cloud, a string
  stream and the reference \<open>nb_valid_points\<close>. By the spec a line is only emitted for rows
  that pass the valid-point predicate, the valid rows are counted, and a range_grid line
  per row follows the vertex block. The loop visits the rows \<open>i, i + 1, ...\<close> below
  \<open>nr_points\<close>; a valid row's grid line names the vertex line written for it, an invalid
  row's grid line is empty.
\<close>

function content_loop ::
  "serializer_parts \<Rightarrow> int \<Rightarrow> nat \<Rightarrow> nat \<Rightarrow> PointCloud2 \<Rightarrow> nat \<Rightarrow> range_grid_content \<times> int
     \<Rightarrow> range_grid_content \<times> int" where
  "content_loop sp precision nr_points point_size cloud i (out, nb_valid_points) =
     (if i < nr_points then
        (if valid_point sp cloud i
         then content_loop sp precision nr_points point_size cloud (Suc i)
                (out\<lparr>vertex_lines := vertex_lines out @ [format_point sp precision cloud point_size i],
                     grid_lines := grid_lines out @ [[nb_valid_points]]\<rparr>,
                 nb_valid_points + 1)
         else content_loop sp precision nr_points point_size cloud (Suc i)
                (out\<lparr>grid_lines := grid_lines out @ [[]]\<rparr>, nb_valid_points))
      else (out, nb_valid_points))"
  by pat_completeness auto
termination
  by (relation "measure (\<lambda>(sp, precision, nr_points, point_size, cloud, i, acc). nr_points - i)")
     auto

definition writeContentWithRangeGridASCII ::
  "serializer_parts \<Rightarrow> int \<Rightarrow> nat \<Rightarrow> nat \<Rightarrow> PointCloud2 \<Rightarrow> range_grid_content \<times> int" where
  "writeContentWithRangeGridASCII sp precision nr_points point_size cloud =
     content_loop sp precision nr_points point_size cloud 0
       (\<lparr>vertex_lines = [], grid_lines = []\<rparr>, 0)"

text \<open>
  Modelled from the spec: the body of \<open>PLYWriter::writeASCII\<close> is not in the header file.
  This is its path with \<open>use_camera\<close> clear, the one that filters rows: the content goes to
  the string stream first, the header is generated with the count of valid rows that
  came back, and the file is the header followed by the stream's content.
\<close>

definition writeASCII_range_grid ::
  "header_parts \<Rightarrow> serializer_parts \<Rightarrow> PLYWriter \<Rightarrow> PointCloud2 \<Rightarrow> Vector4f \<Rightarrow> Quaternionf \<Rightarrow> int
     \<Rightarrow> header_line list \<times> range_grid_content" where
  "writeASCII_range_grid parts sp this cloud origin orientation precision =
     (let nr_points = nr_points_of cloud;
          point_size = point_step cloud;
          (content, nb_valid_points) =
             writeContentWithRangeGridASCII sp precision nr_points point_size cloud
      in (generateHeaderASCII parts this cloud origin orientation nb_valid_points False,
          content))"

section \<open>Concrete values\<close>

text \<open>A cloud with no rows and no fields.\<close>

definition blank_cloud :: PointCloud2 where
  "blank_cloud = \<lparr>height = 0, width = 0, fields' = [], is_bigendian = False,
                   point_step = 0, row_step = 0, data = []\<rparr>"

text \<open>The assembler before the first row of the range grid.\<close>

definition empty_assembler :: RangeGridAssembler where
  "empty_assembler = \<lparr>range_grid = [], declared_length = 0, sealed = True\<rparr>"

text \<open>
  A cloud of three rows, a valid-point predicate that rejects the row of index 1, and a
  header with one comment and the three position properties.
\<close>

definition three_rows :: PointCloud2 where
  "three_rows = blank_cloud\<lparr>width := 3, height := 1\<rparr>"

definition skip_row_1 :: serializer_parts where
  "skip_row_1 = \<lparr>valid_point = (\<lambda>cloud i. i \<noteq> 1),
                  format_point = (\<lambda>precision cloud point_size i. ''0 0 0'')\<rparr>"

definition position_header :: header_parts where
  "position_header =
     \<lparr>comment_lines = [''generated''],
      vertex_properties = (\<lambda>mask cloud. [(''float'', ''x''), (''float'', ''y''), (''float'', ''z'')]),
      camera_properties = []\<rparr>"

definition identity_quaternion :: Quaternionf where
  "identity_quaternion = \<lparr>qw = f_one, qx = f_zero, qy = f_zero, qz = f_zero\<rparr>"

section \<open>The convenience overloads\<close>

text \<open>
  C6. For every file name, cloud, pose and \<open>use_camera\<close> flag, \<open>write\<close> with \<open>binary\<close> set
  returns what \<open>writeBinary (file_name, cloud, origin, orientation)\<close> returns, and with
  \<open>binary\<close> clear what \<open>writeASCII (file_name, cloud, origin, orientation, 8, use_camera)\<close>
  returns: the precision is the default 8 and \<open>use_camera\<close> is handed on unchanged.
\<close>

theorem write_dispatch:
  "write' wBinary wASCII this fs file_name cloud origin orientation True use_camera
     = wBinary this fs file_name cloud origin orientation
   \<and> write' wBinary wASCII this fs file_name cloud origin orientation False use_camera
     = wASCII this fs file_name cloud origin orientation 8 use_camera"
  by (simp add: write'_def)

text \<open>
  C10. For every file name and cloud, the two-argument \<open>read\<close> returns the result code of
  the five-argument \<open>read\<close> it calls, and leaves the cloud (and the reader) as that call
  left them; the origin, orientation and version that call produced are dropped.
\<close>

theorem read2_is_read5:
  "fst (read2 read this fs file_name cloud origin orientation ply_version)
     = fst (read this fs file_name cloud origin orientation ply_version)
   \<and> fst (snd (read2 read this fs file_name cloud origin orientation ply_version))
     = fst (snd (read this fs file_name cloud origin orientation ply_version))
   \<and> snd (snd (read2 read this fs file_name cloud origin orientation ply_version))
     = fst (snd (snd (read this fs file_name cloud origin orientation ply_version)))"
  by (simp add: read2_def split: prod.split)

section \<open>Range-grid fidelity\<close>

lemma feed_append:
  "feed (es @ fs) a = (case feed es a of Inl err \<Rightarrow> Inl err | Inr a' \<Rightarrow> feed fs a')"
  by (induction es arbitrary: a) (auto split: sum.splits)

lemma feed_elements:
  assumes "\<not> sealed a" and "range_grid a = g @ [cur]"
    and "length cur + length vs \<le> declared_length a"
  shows "feed (map ListElement vs) a = Inr (a\<lparr>range_grid := g @ [cur @ vs]\<rparr>)"
  using assms
proof (induction vs arbitrary: a cur)
  case Nil
  then show ?case by simp
next
  case (Cons v vs)
  let ?a = "a\<lparr>range_grid := g @ [cur @ [v]]\<rparr>"
  have step: "list_step (ListElement v) a = Inr ?a"
    using Cons.prems by (simp add: rangeGridVertexIndicesElementCallback_def)
  have "feed (map ListElement vs) ?a = Inr (?a\<lparr>range_grid := g @ [(cur @ [v]) @ vs]\<rparr>)"
    using Cons.prems by (intro Cons.IH) simp_all
  with step show ?case by simp
qed

lemma feed_begin_elements:
  assumes "length vs \<le> unat sz"
  shows "feed (ListBegin sz # map ListElement vs) a
           = Inr (a\<lparr>range_grid := range_grid a @ [vs], declared_length := unat sz,
                    sealed := False\<rparr>)"
proof -
  let ?b = "a\<lparr>range_grid := range_grid a @ [[]], declared_length := unat sz, sealed := False\<rparr>"
  have "feed (map ListElement vs) ?b = Inr (?b\<lparr>range_grid := range_grid a @ [[] @ vs]\<rparr>)"
    using assms by (intro feed_elements) simp_all
  then show ?thesis
    by (simp add: rangeGridVertexIndicesBeginCallback_def)
qed

lemma feed_row:
  assumes "length vs = unat sz"
  shows "feed (row_events sz vs) a
           = Inr (a\<lparr>range_grid := range_grid a @ [vs], declared_length := unat sz,
                    sealed := True\<rparr>)"
proof -
  have "feed (row_events sz vs) a = feed ((ListBegin sz # map ListElement vs) @ [ListEnd]) a"
    by (simp add: row_events_def)
  also have "\<dots> = Inr (a\<lparr>range_grid := range_grid a @ [vs], declared_length := unat sz,
                    sealed := True\<rparr>)"
    unfolding feed_append using feed_begin_elements [of vs sz a] assms
    by (simp add: rangeGridVertexIndicesEndCallback_def)
  finally show ?thesis .
qed

lemma feed_rows:
  assumes "list_all (\<lambda>(sz, vs). length vs = unat sz) rows"
  shows "\<exists>a'. feed (grid_events rows) a = Inr a'
            \<and> range_grid a' = range_grid a @ map snd rows"
  using assms
proof (induction rows arbitrary: a)
  case Nil
  then show ?case by (simp add: grid_events_def)
next
  case (Cons row rows)
  obtain sz vs where row: "row = (sz, vs)" by (cases row)
  with Cons.prems have len: "length vs = unat sz"
    and rest: "list_all (\<lambda>(sz, vs). length vs = unat sz) rows"
    by simp_all
  let ?b = "a\<lparr>range_grid := range_grid a @ [vs], declared_length := unat sz, sealed := True\<rparr>"
  from Cons.IH [OF rest, of ?b] obtain a' where
    a': "feed (grid_events rows) ?b = Inr a'" "range_grid a' = range_grid ?b @ map snd rows"
    by blast
  have "feed (grid_events (row # rows)) a = feed (row_events sz vs @ grid_events rows) a"
    by (simp add: grid_events_def row)
  also have "\<dots> = feed (grid_events rows) ?b"
    unfolding feed_append by (simp add: feed_row [OF len])
  finally show ?case using a' row by simp
qed

text \<open>
  C7. A range-grid row whose list property declares length L and supplies exactly L
  element values decodes to one more list, of length L, holding the values in the order
  they arrived; an (L+1)-th element value is rejected with an error.
\<close>

theorem range_grid_fidelity:
  assumes "length vs = unat sz"
  shows "(\<exists>a'. feed (row_events sz vs) a = Inr a'
              \<and> range_grid a' = range_grid a @ [vs]
              \<and> length (last (range_grid a')) = unat sz)
       \<and> feed (ListBegin sz # map ListElement (vs @ [v])) a = Inl TooManyElements"
proof -
  let ?b = "a\<lparr>range_grid := range_grid a @ [vs], declared_length := unat sz, sealed := False\<rparr>"
  have full: "feed (ListBegin sz # map ListElement vs) a = Inr ?b"
    using assms by (intro feed_begin_elements) simp
  have ok: "feed (row_events sz vs) a = Inr (?b\<lparr>sealed := True\<rparr>)"
    using assms by (simp add: feed_row)
  have "feed (ListBegin sz # map ListElement (vs @ [v])) a
          = feed ((ListBegin sz # map ListElement vs) @ [ListElement v]) a"
    by simp
  also have "\<dots> = Inl TooManyElements"
    unfolding feed_append using full assms
    by (simp add: rangeGridVertexIndicesElementCallback_def)
  finally have over: "feed (ListBegin sz # map ListElement (vs @ [v])) a = Inl TooManyElements" .
  from ok over assms show ?thesis by simp
qed

theorem range_grid_fidelity_witness:
  "length [5, 7 :: 32 word] = unat (2 :: 8 word)
   \<and> (\<exists>a'. feed (row_events 2 [5, 7]) empty_assembler = Inr a'
          \<and> range_grid a' = range_grid empty_assembler @ [[5, 7]]
          \<and> length (last (range_grid a')) = unat (2 :: 8 word))
   \<and> feed (ListBegin 2 # map ListElement ([5, 7] @ [9])) empty_assembler = Inl TooManyElements"
proof -
  have h: "length [5, 7 :: 32 word] = unat (2 :: 8 word)" by simp
  from range_grid_fidelity [OF h, of empty_assembler 9] h show ?thesis
    by blast
qed

section \<open>Valid-point reconciliation\<close>

lemma content_loop_count:
  "content_loop sp precision nr_points point_size cloud i (out, n) = (out', n')
   \<Longrightarrow> n' - n = int (length (vertex_lines out')) - int (length (vertex_lines out))"
proof (induction sp precision nr_points point_size cloud i "(out, n)" arbitrary: out n
       rule: content_loop.induct)
  case (1 sp precision nr_points point_size cloud i out nb)
  show ?case
  proof (cases "i < nr_points")
    case False
    with "1.prems" show ?thesis by simp
  next
    case True
    show ?thesis
    proof (cases "valid_point sp cloud i")
      case v: True
      from "1.prems" True v
      have "content_loop sp precision nr_points point_size cloud (Suc i)
              (out\<lparr>vertex_lines := vertex_lines out @ [format_point sp precision cloud point_size i],
                   grid_lines := grid_lines out @ [[nb]]\<rparr>, nb + 1) = (out', n')"
        by simp
      from "1.hyps"(1) [OF True v this] show ?thesis by simp
    next
      case v: False
      from "1.prems" True v
      have "content_loop sp precision nr_points point_size cloud (Suc i)
              (out\<lparr>grid_lines := grid_lines out @ [[]]\<rparr>, nb) = (out', n')"
        by simp
      from "1.hyps"(2) [OF True v this] show ?thesis by simp
    qed
  qed
qed

lemma content_loop_lines:
  "i \<le> nr_points \<Longrightarrow>
   length (vertex_lines (fst (content_loop sp precision nr_points point_size cloud i (out, n))))
     = length (vertex_lines out) + length (filter (valid_point sp cloud) [i..<nr_points])"
proof (induction sp precision nr_points point_size cloud i "(out, n)" arbitrary: out n
       rule: content_loop.induct)
  case (1 sp precision nr_points point_size cloud i out nb)
  show ?case
  proof (cases "i < nr_points")
    case False
    with "1.prems" show ?thesis by simp
  next
    case True
    then have up: "[i..<nr_points] = i # [Suc i..<nr_points]"
      by (simp add: upt_conv_Cons)
    show ?thesis
    proof (cases "valid_point sp cloud i")
      case v: True
      from "1.hyps"(1) [OF True v] True v up show ?thesis by simp
    next
      case v: False
      from "1.hyps"(2) [OF True v] True v up show ?thesis by simp
    qed
  qed
qed

text \<open>
  C8. For every ASCII write on the path that filters rows by the valid-point predicate,
  the vertex count the emitted header declares is the number of vertex data lines
  written to the body.
\<close>

theorem valid_point_reconciliation:
  "declared_vertex_count (fst (writeASCII_range_grid parts sp this cloud origin orientation precision))
     = Some (int (length (vertex_lines
          (snd (writeASCII_range_grid parts sp this cloud origin orientation precision)))))"
proof -
  obtain content nb where w:
    "writeContentWithRangeGridASCII sp precision (nr_points_of cloud) (point_step cloud) cloud
       = (content, nb)"
    by (cases "writeContentWithRangeGridASCII sp precision (nr_points_of cloud) (point_step cloud) cloud")
  then have "nb - 0 = int (length (vertex_lines content))
                        - int (length (vertex_lines \<lparr>vertex_lines = [], grid_lines = []\<rparr>))"
    unfolding writeContentWithRangeGridASCII_def by (rule content_loop_count)
  then have nb: "nb = int (length (vertex_lines content))" by simp
  have hd: "declared_vertex_count (map Comment cs @ Element ''vertex'' k # rest) = Some k" for cs k rest
    by (induction cs) simp_all
  show ?thesis
    by (simp add: writeASCII_range_grid_def Let_def w nb generateHeaderASCII_def
          generateHeader_def hd)
qed

theorem valid_point_reconciliation_witness:
  "declared_vertex_count
     (fst (writeASCII_range_grid position_header skip_row_1 PLYWriter_ctor three_rows
        Vector4f_Zero identity_quaternion 8)) = Some 2
   \<and> length (vertex_lines
       (snd (writeASCII_range_grid position_header skip_row_1 PLYWriter_ctor three_rows
          Vector4f_Zero identity_quaternion 8))) = 2"
proof -
  have "length (vertex_lines
       (snd (writeASCII_range_grid position_header skip_row_1 PLYWriter_ctor three_rows
          Vector4f_Zero identity_quaternion 8))) = 2"
    by (simp add: writeASCII_range_grid_def writeContentWithRangeGridASCII_def
          nr_points_of_def three_rows_def blank_cloud_def skip_row_1_def)
  with valid_point_reconciliation [of position_header skip_row_1 PLYWriter_ctor three_rows
      Vector4f_Zero identity_quaternion 8]
  show ?thesis by simp
qed

end
